theory Spec2Isabelle
  imports Main
begin

section \<open>The feature-gate evaluator (FEATURES.ts)\<close>

text \<open>
  The source is one arrow function whose body is a single object literal:
  \<^verbatim>\<open>
  export const FEATURE_GATES = ({ dropzoneUsers, userId }:
      { dropzoneUsers: string[]; userId?: string }) =>
    ({
      STRIPE_ENABLED: true,
      PRIMARY_PUBKEY_ENABLED: true,
      SWAP_FEES_ENABLED: false,
      DROPZONE_ENABLED: Boolean(userId && dropzoneUsers.includes(userId)),
      STICKER_ENABLED: true,
      BARTER_ENABLED: false,
    } satisfies { [feature in keyof FEATURE_GATES_MAP]: boolean });
  \<close>
  The argument object is a record; the optional \<open>userId\<close> is a \<open>string option\<close>
  (\<open>None\<close> is \<open>undefined\<close>). The record is extensible, as a JavaScript object may carry
  further properties, which the destructuring pattern does not read. Of a string the
  body uses only whether it is empty and whether it equals another string.
\<close>

record FeatureGatesArgs =
  dropzoneUsers :: "string list"
  userId :: "string option"

subsection \<open>The JavaScript values and operators the body uses\<close>

text \<open>
  The operand of \<open>Boolean(...)\<close> is the value of an \<open>&&\<close> expression: \<open>undefined\<close>, a
  string or a boolean. \<open>ToBoolean\<close> is the ECMAScript conversion on these three kinds of
  value: \<open>undefined\<close> and the empty string are falsy, every other string is truthy.
\<close>

datatype js_value = JSUndefined | JSString string | JSBoolean bool

fun ToBoolean :: "js_value \<Rightarrow> bool" where
  "ToBoolean JSUndefined = False"
| "ToBoolean (JSString s) = (s \<noteq> [])"
| "ToBoolean (JSBoolean b) = b"

text \<open>\<open>a && b\<close> is \<open>a\<close> when \<open>a\<close> is falsy and \<open>b\<close> otherwise.\<close>

definition js_and :: "js_value \<Rightarrow> js_value \<Rightarrow> js_value" where
  "js_and a b = (if ToBoolean a then b else a)"

text \<open>The value of an optional string parameter.\<close>

fun js_of_optional :: "string option \<Rightarrow> js_value" where
  "js_of_optional None = JSUndefined"
| "js_of_optional (Some s) = JSString s"

text \<open>
  \<open>Array.prototype.includes\<close> on a \<open>string[]\<close>: SameValueZero on strings is equality of
  the strings, and \<open>undefined\<close> is no element of a \<open>string[]\<close>. (\<open>includes\<close> is a
  keyword of Isabelle, hence the longer name.)
\<close>

fun array_includes :: "string list \<Rightarrow> string option \<Rightarrow> bool" where
  "array_includes xs None = False"
| "array_includes xs (Some s) = (s \<in> set xs)"

subsection \<open>The evaluator\<close>

text \<open>
  The returned object literal is the list of its \<open>key: value\<close> entries in source order;
  reading a property of the object is \<open>flag\<close>.
\<close>

type_synonym FeatureFlagSet = "(string \<times> bool) list"

definition FEATURE_GATES :: "'a FeatureGatesArgs_scheme \<Rightarrow> FeatureFlagSet" where
  "FEATURE_GATES args =
     [(''STRIPE_ENABLED'', True),
      (''PRIMARY_PUBKEY_ENABLED'', True),
      (''SWAP_FEES_ENABLED'', False),
      (''DROPZONE_ENABLED'',
         ToBoolean (js_and (js_of_optional (userId args))
                           (JSBoolean (array_includes (dropzoneUsers args) (userId args))))),
      (''STICKER_ENABLED'', True),
      (''BARTER_ENABLED'', False)]"

definition flag :: "FeatureFlagSet \<Rightarrow> string \<Rightarrow> bool option" where
  "flag obj key = map_of obj key"

text \<open>
  Modelled from the spec: the keys of the type \<open>FEATURE_GATES_MAP\<close>, which the source
  imports from the package \<open>@coral-xyz/common\<close>; the spec names the feature universe.
\<close>

definition FEATURE_GATES_MAP_keys :: "string list" where
  "FEATURE_GATES_MAP_keys =
     [''STRIPE_ENABLED'', ''PRIMARY_PUBKEY_ENABLED'', ''SWAP_FEES_ENABLED'',
      ''DROPZONE_ENABLED'', ''STICKER_ENABLED'', ''BARTER_ENABLED'']"

text \<open>
  The spec's reading of the gate: \<open>userId\<close> is defined and is a member of the cohort.
\<close>

definition spec_defined_member :: "string option \<Rightarrow> string list \<Rightarrow> bool" where
  "spec_defined_member u cohort = (case u of None \<Rightarrow> False | Some s \<Rightarrow> s \<in> set cohort)"

section \<open>The schema document (schema.graphql)\<close>

text \<open>
  The schema is a document of the GraphQL type-system definition language. It is embedded
  as the list of its definitions, in source order, each with its description (the
  \<^verbatim>\<open>"""\<close> block before it, as the block-string value: no surrounding blank lines, the
  lines joined by a newline), its name and its members. A type reference is a named
  type, a list \<^verbatim>\<open>[T]\<close> or a non-null type \<^verbatim>\<open>T!\<close>.
\<close>

datatype gql_type = NamedType string | ListType gql_type | NonNullType gql_type

datatype gql_value = IntValue int | StringValue string | BooleanValue bool | EnumValue string

text \<open>A directive applied to a field: \<^verbatim>\<open>@name(argument: value ...)\<close>.\<close>

datatype directive =
  Directive (directive_name: string) (directive_arguments: "(string \<times> gql_value) list")

text \<open>An argument of a field or of a directive, or a field of an input object.\<close>

datatype input_value_definition =
  InputValueDefinition (iv_description: "string option") (iv_name: string) (iv_type: gql_type)

datatype field_definition =
  FieldDefinition (fd_description: "string option") (fd_name: string)
    (fd_arguments: "input_value_definition list") (fd_type: gql_type)
    (fd_directives: "directive list")

text \<open>The directive locations of the GraphQL grammar.\<close>

datatype directive_location =
    QUERY | MUTATION | SUBSCRIPTION | FIELD | FRAGMENT_DEFINITION | FRAGMENT_SPREAD
  | INLINE_FRAGMENT | VARIABLE_DEFINITION
  | SCHEMA | SCALAR | OBJECT | FIELD_DEFINITION | ARGUMENT_DEFINITION | INTERFACE | UNION
  | ENUM | ENUM_VALUE | INPUT_OBJECT | INPUT_FIELD_DEFINITION

text \<open>
  The kinds of definition the document uses. \<open>SchemaDefinition\<close> lists the root operation
  types; \<open>ObjectTypeDefinition\<close> carries the interfaces after \<^verbatim>\<open>implements\<close>.
\<close>

datatype type_system_definition =
    SchemaDefinition "(string \<times> string) list"
  | ScalarTypeDefinition "string option" string
  | DirectiveDefinition "string option" string "input_value_definition list"
      "directive_location list"
  | ObjectTypeDefinition "string option" string "string list" "field_definition list"
  | InterfaceTypeDefinition "string option" string "field_definition list"
  | EnumTypeDefinition "string option" string "string list"
  | InputObjectTypeDefinition "string option" string "input_value_definition list"

subsection \<open>The definitions of the document, in source order\<close>

definition schema_definition :: type_system_definition where
  "schema_definition =
     SchemaDefinition [(''mutation'', ''Mutation''), (''query'', ''Query'')]"

definition JSONObject :: type_system_definition where
  "JSONObject =
     ScalarTypeDefinition (Some ''Custom scalar to handle the parsing of arbitrary JSON object data.'')
       ''JSONObject''"

definition cacheControl :: type_system_definition where
  "cacheControl =
     DirectiveDefinition (Some ''Definition of cache control directive for Apollo to leverage with the plugin.'')
       ''cacheControl''
       [InputValueDefinition None ''maxAge'' (NamedType ''Int''),
        InputValueDefinition None ''scope'' (NamedType ''CacheControlScope''),
        InputValueDefinition None ''inheritMaxAge'' (NamedType ''Boolean'')]
       [FIELD_DEFINITION, OBJECT, INTERFACE, UNION]"

definition Mutation :: type_system_definition where
  "Mutation =
     ObjectTypeDefinition (Some ''Root level mutation type.'')
       ''Mutation'' []
       [FieldDefinition (Some ''Authenticate a user and set the JWT in their cookies.'')
          ''authenticate''
          [InputValueDefinition None ''chainId'' (NonNullType (NamedType ''ChainID'')),
           InputValueDefinition None ''message'' (NonNullType (NamedType ''String'')),
           InputValueDefinition None ''publicKey'' (NonNullType (NamedType ''String'')),
           InputValueDefinition None ''signature'' (NonNullType (NamedType ''String''))]
          (NonNullType (NamedType ''String'')) [],
        FieldDefinition (Some ''Deauthenticate the current user and clear their JWT cookie.'')
          ''deauthenticate'' []
          (NonNullType (NamedType ''String'')) [],
        FieldDefinition (Some ''Attempt to add a new wallet public key to the user account.'')
          ''importPublicKey''
          [InputValueDefinition None ''chainId'' (NonNullType (NamedType ''ChainID'')),
           InputValueDefinition None ''address'' (NonNullType (NamedType ''String'')),
           InputValueDefinition None ''signature'' (NonNullType (NamedType ''String''))]
          (NamedType ''Boolean'') [],
        FieldDefinition (Some ''Allows users to send friend requests to another remote user.'')
          ''sendFriendRequest''
          [InputValueDefinition None ''otherUserId'' (NonNullType (NamedType ''String'')),
           InputValueDefinition None ''accept'' (NonNullType (NamedType ''Boolean''))]
          (NamedType ''Boolean'') []]"

definition Query :: type_system_definition where
  "Query =
     ObjectTypeDefinition (Some ''Root level query type.'')
       ''Query'' []
       [FieldDefinition (Some ''Get the entire or a specific entry of a token list.'')
          ''tokenList''
          [InputValueDefinition None ''chainId'' (NonNullType (NamedType ''ChainID'')),
           InputValueDefinition None ''filters'' (NamedType ''TokenListEntryFiltersInput'')]
          (NonNullType (ListType (NamedType ''TokenListEntry'')))
          [Directive ''cacheControl'' [(''maxAge'', IntValue 600)]],
        FieldDefinition (Some ''Fetch a user by their Backpack account username. The username is inferred by the\<newline>presence of a valid and verified JWT.'')
          ''user'' []
          (NamedType ''User'')
          [Directive ''cacheControl'' [(''maxAge'', IntValue 60), (''scope'', EnumValue ''PRIVATE'')]],
        FieldDefinition (Some ''Fetching a wallet and it's assets by the public key address and associated `ChainID`.'')
          ''wallet''
          [InputValueDefinition None ''chainId'' (NonNullType (NamedType ''ChainID'')),
           InputValueDefinition None ''address'' (NonNullType (NamedType ''String''))]
          (NamedType ''Wallet'')
          [Directive ''deprecated'' [(''reason'', StringValue ''Should use the user entrypoint for authentication identities.'')],
           Directive ''cacheControl'' [(''maxAge'', IntValue 60)]]]"

definition CacheControlScope :: type_system_definition where
  "CacheControlScope =
     EnumTypeDefinition (Some ''Scope enum for cache control.'')
       ''CacheControlScope'' [''PUBLIC'', ''PRIVATE'']"

definition ChainID :: type_system_definition where
  "ChainID =
     EnumTypeDefinition (Some ''Chain ID enum variants for the supported blockchains in the API.'')
       ''ChainID'' [''ETHEREUM'', ''SOLANA'']"

definition FriendRequestType :: type_system_definition where
  "FriendRequestType =
     EnumTypeDefinition (Some ''Enum for associating a friend request with the direction of how it was sent.'')
       ''FriendRequestType'' [''RECEIVED'', ''SENT'']"

definition SortDirection :: type_system_definition where
  "SortDirection =
     EnumTypeDefinition (Some ''Enum for specifying the direction of sorting a list of items.'')
       ''SortDirection'' [''ASC'', ''DESC'']"

definition BalanceFiltersInput :: type_system_definition where
  "BalanceFiltersInput =
     InputObjectTypeDefinition (Some ''Input filter type for fetching wallet balances.'')
       ''BalanceFiltersInput''
       [InputValueDefinition (Some ''If requested, only provide balances for non-native tokens that are listed on CoinGecko.'') ''marketListedTokensOnly'' (NamedType ''Boolean'')]"

definition NftFiltersInput :: type_system_definition where
  "NftFiltersInput =
     InputObjectTypeDefinition (Some ''Input filter type for fetching user wallet NFTs.'')
       ''NftFiltersInput''
       [InputValueDefinition (Some ''A list of mint or contract addresses to filter the response.'') ''addresses'' (ListType (NonNullType (NamedType ''String'')))]"

definition NotificationFiltersInput :: type_system_definition where
  "NotificationFiltersInput =
     InputObjectTypeDefinition (Some ''Input filter type for fetching user notifications.'')
       ''NotificationFiltersInput''
       [InputValueDefinition (Some ''The limit for number of items desired in the response.'') ''limit'' (NamedType ''Int''),
        InputValueDefinition (Some ''The direction to sort the timestamps by.'') ''sortDirection'' (NamedType ''SortDirection''),
        InputValueDefinition (Some ''Flag to filter for only unread notifications of the user.'') ''unreadOnly'' (NamedType ''Boolean'')]"

definition TokenListEntryFiltersInput :: type_system_definition where
  "TokenListEntryFiltersInput =
     InputObjectTypeDefinition (Some ''Input filter type for fetching a specific entry from a token list.'')
       ''TokenListEntryFiltersInput''
       [InputValueDefinition (Some ''The mint or contract address of the token.'') ''addresses'' (ListType (NonNullType (NamedType ''String''))),
        InputValueDefinition (Some ''The market listing name of the token.'') ''name'' (NamedType ''String''),
        InputValueDefinition (Some ''The market listing symbol of the token.'') ''symbols'' (ListType (NonNullType (NamedType ''String'')))]"

definition TransactionFiltersInput :: type_system_definition where
  "TransactionFiltersInput =
     InputObjectTypeDefinition (Some ''Input filter type for fetching transaction history.'')
       ''TransactionFiltersInput''
       [InputValueDefinition (Some ''Block hash or signature to search after.'') ''after'' (NamedType ''String''),
        InputValueDefinition (Some ''Block hash or signature to search before.'') ''before'' (NamedType ''String''),
        InputValueDefinition (Some ''A token mint or contract address to filter for.'') ''token'' (NamedType ''String'')]"

definition WalletFiltersInput :: type_system_definition where
  "WalletFiltersInput =
     InputObjectTypeDefinition (Some ''Input filter type for fetching user wallets and their data.'')
       ''WalletFiltersInput''
       [InputValueDefinition (Some ''A `ChainID` value to filter for all of the public keys of the user for a given blockchain.'') ''chainId'' (NamedType ''ChainID''),
        InputValueDefinition (Some ''Flag to filter for only the primary wallets for each registered blockchain of the user.'') ''primaryOnly'' (NamedType ''Boolean''),
        InputValueDefinition (Some ''A list of public keys to filter in the response.'') ''pubkeys'' (ListType (NonNullType (NamedType ''String'')))]"

definition Node :: type_system_definition where
  "Node =
     InterfaceTypeDefinition (Some ''Interface to enforce the implementation of an `id` field on a type.'')
       ''Node''
       [FieldDefinition (Some ''Globally unique identifier.'')
          ''id'' []
          (NonNullType (NamedType ''ID'')) []]"

definition PageInfo :: type_system_definition where
  "PageInfo =
     ObjectTypeDefinition (Some ''Relay specification for a connection's page information.'')
       ''PageInfo'' []
       [FieldDefinition (Some ''Flag to indicate if the connection has another page of edges.'')
          ''hasNextPage'' []
          (NonNullType (NamedType ''Boolean'')) [],
        FieldDefinition (Some ''Flag to indicate if the connection has a previous page of edges.'')
          ''hasPreviousPage'' []
          (NonNullType (NamedType ''Boolean'')) [],
        FieldDefinition (Some ''Cursor for the first edge in the page.'')
          ''startCursor'' []
          (NamedType ''String'') [],
        FieldDefinition (Some ''Cursor for the last edge in the page.'')
          ''endCursor'' []
          (NamedType ''String'') []]"

definition Balances :: type_system_definition where
  "Balances =
     ObjectTypeDefinition (Some ''Top-level type for providing wallet balance information.\<newline>Should provide details about native and non-native token balances with aggregation details.'')
       ''Balances'' [''Node'']
       [FieldDefinition (Some ''Globally unique identifier for a wallet's balances data.'')
          ''id'' []
          (NonNullType (NamedType ''ID'')) [],
        FieldDefinition (Some ''The numerical value representing the aggregated market value of all fungible assets in the wallet.'')
          ''aggregate'' []
          (NonNullType (NamedType ''BalanceAggregate'')) [],
        FieldDefinition (Some ''The Relay connection of token account balances and market data for tokens owned by the wallet.'')
          ''tokens'' []
          (NamedType ''TokenBalanceConnection'')
          [Directive ''cacheControl'' [(''inheritMaxAge'', BooleanValue True)]]]"

definition BalanceAggregate :: type_system_definition where
  "BalanceAggregate =
     ObjectTypeDefinition (Some ''The aggregate market balance data for all balances in a wallet.'')
       ''BalanceAggregate'' [''Node'']
       [FieldDefinition (Some ''Globally unique identifier for the balance aggregate.'')
          ''id'' []
          (NonNullType (NamedType ''ID'')) [],
        FieldDefinition (Some ''The aggregate percentage of change.'')
          ''percentChange'' []
          (NonNullType (NamedType ''Float'')) [],
        FieldDefinition (Some ''The aggregate USD value of all balance holdings.'')
          ''value'' []
          (NonNullType (NamedType ''Float'')) [],
        FieldDefinition (Some ''The aggregate change in USD value.'')
          ''valueChange'' []
          (NonNullType (NamedType ''Float'')) []]"

definition Collection :: type_system_definition where
  "Collection =
     ObjectTypeDefinition (Some ''`Nft` collection sub-type definition.'')
       ''Collection'' [''Node'']
       [FieldDefinition (Some ''Globally unique identifier for an NFT collection object.'')
          ''id'' []
          (NonNullType (NamedType ''ID'')) [],
        FieldDefinition (Some ''The mint or contract address of the collection, presenting an NFT's parental entity.'')
          ''address'' []
          (NonNullType (NamedType ''String'')) [],
        FieldDefinition (Some ''The image link for the collection or parental contract entity.'')
          ''image'' []
          (NamedType ''String'') [],
        FieldDefinition (Some ''The name of the collection or parental contract entity.'')
          ''name'' []
          (NamedType ''String'') [],
        FieldDefinition (Some ''Flag to indicate whether or not it has been verified by the relevant ecosystem standards.'')
          ''verified'' []
          (NonNullType (NamedType ''Boolean'')) []]"

definition Friend :: type_system_definition where
  "Friend =
     ObjectTypeDefinition (Some ''Represents a friend reference for the parent `User`.'')
       ''Friend'' [''Node'']
       [FieldDefinition (Some ''Globally unique identifier for a friend of a user.'')
          ''id'' []
          (NonNullType (NamedType ''ID'')) [],
        FieldDefinition (Some ''The image link for a friend's user avatar.'')
          ''avatar'' []
          (NonNullType (NamedType ''String'')) [],
        FieldDefinition (Some ''The Backpack username of the friend.'')
          ''username'' []
          (NonNullType (NamedType ''String'')) []]"

definition FriendRequest :: type_system_definition where
  "FriendRequest =
     ObjectTypeDefinition (Some ''Friend request data for a user.'')
       ''FriendRequest'' [''Node'']
       [FieldDefinition (Some ''Globally unique identifier for a single friend request entity.'')
          ''id'' []
          (NonNullType (NamedType ''ID'')) [],
        FieldDefinition (Some ''The type of friend request to indicate whether it was sent or received by the user.'')
          ''type'' []
          (NonNullType (NamedType ''FriendRequestType'')) [],
        FieldDefinition (Some ''The recipient or sending Backpack user ID of the request.'')
          ''userId'' []
          (NonNullType (NamedType ''String'')) []]"

definition Friendship :: type_system_definition where
  "Friendship =
     ObjectTypeDefinition (Some ''Wrapper type for all user friendship data.'')
       ''Friendship'' []
       [FieldDefinition (Some ''A list of Backpack friends of the user.'')
          ''friends'' []
          (ListType (NonNullType (NamedType ''Friend'')))
          [Directive ''cacheControl'' [(''maxAge'', IntValue 60), (''scope'', EnumValue ''PRIVATE'')]],
        FieldDefinition (Some ''A list of pending Backpack friend requests related to the user.'')
          ''requests'' []
          (ListType (NonNullType (NamedType ''FriendRequest'')))
          [Directive ''cacheControl'' [(''maxAge'', IntValue 60), (''scope'', EnumValue ''PRIVATE'')]]]"

definition Listing :: type_system_definition where
  "Listing =
     ObjectTypeDefinition (Some ''NFT listing data pulling from marketplaces.'')
       ''Listing'' [''Node'']
       [FieldDefinition (Some ''Globally unique identifier for an NFT marketplace listing.'')
          ''id'' []
          (NonNullType (NamedType ''ID'')) [],
        FieldDefinition (Some ''The display amount of the current listing price.'')
          ''amount'' []
          (NonNullType (NamedType ''String'')) [],
        FieldDefinition (Some ''The marketplace or platform that the NFT is currently listing on.'')
          ''source'' []
          (NonNullType (NamedType ''String'')) [],
        FieldDefinition (Some ''A link to the NFT's listing on the marketplace.'')
          ''url'' []
          (NonNullType (NamedType ''String'')) []]"

definition MarketData :: type_system_definition where
  "MarketData =
     ObjectTypeDefinition (Some ''Coingecko and computed market and price data for a token.'')
       ''MarketData'' [''Node'']
       [FieldDefinition (Some ''Globally unqiue identifier for the token's market data.'')
          ''id'' []
          (NonNullType (NamedType ''ID'')) [],
        FieldDefinition (Some ''A timestamp of the last date of when the market data was updated.'')
          ''lastUpdatedAt'' []
          (NonNullType (NamedType ''String'')) [],
        FieldDefinition (Some ''The percentage of change since the latest market data update.'')
          ''percentChange'' []
          (NonNullType (NamedType ''Float'')) [],
        FieldDefinition (Some ''The current USD price of the token according to the market data.'')
          ''price'' []
          (NonNullType (NamedType ''Float'')) [],
        FieldDefinition (Some ''Time series price data for the token to be used for creating a sparkline.'')
          ''sparkline'' []
          (NonNullType (ListType (NonNullType (NamedType ''Float'')))) [],
        FieldDefinition (Some ''The numerical amount change in USD since the latest market data update.'')
          ''usdChange'' []
          (NonNullType (NamedType ''Float'')) [],
        FieldDefinition (Some ''The value of the wallet's currently holdings of the token in USD.'')
          ''value'' []
          (NonNullType (NamedType ''Float'')) [],
        FieldDefinition (Some ''The value change in USD of the wallet's holdings of the token is USD.'')
          ''valueChange'' []
          (NonNullType (NamedType ''Float'')) []]"

definition Nft :: type_system_definition where
  "Nft =
     ObjectTypeDefinition (Some ''Generic NFT object type definition to provide on-chain and off-chain metadata.'')
       ''Nft'' [''Node'']
       [FieldDefinition (Some ''Globally unique identifier for an NFT.'')
          ''id'' []
          (NonNullType (NamedType ''ID'')) [],
        FieldDefinition (Some ''The mint or contract address of the item.'')
          ''address'' []
          (NonNullType (NamedType ''String'')) [],
        FieldDefinition (Some ''The list of attributes or traits found in the item's metadata.'')
          ''attributes'' []
          (ListType (NonNullType (NamedType ''NftAttribute'')))
          [Directive ''cacheControl'' [(''inheritMaxAge'', BooleanValue True)]],
        FieldDefinition (Some ''The collection or contract parental entity of the item.'')
          ''collection'' []
          (NamedType ''Collection'')
          [Directive ''cacheControl'' [(''inheritMaxAge'', BooleanValue True)]],
        FieldDefinition (Some ''Whether or not the NFT is using on-chain compression.'')
          ''compressed'' []
          (NonNullType (NamedType ''Boolean'')) [],
        FieldDefinition (Some ''The description of the NFT found in the metadata.'')
          ''description'' []
          (NamedType ''String'') [],
        FieldDefinition (Some ''The image link of the NFT found in the metadata.'')
          ''image'' []
          (NamedType ''String'') [],
        FieldDefinition (Some ''Possible marketplace or platform listing data for the NFT for sale.'')
          ''listing'' []
          (NamedType ''Listing'')
          [Directive ''cacheControl'' [(''maxAge'', IntValue 60)]],
        FieldDefinition (Some ''The link to the off-chain metadata.'')
          ''metadataUri'' []
          (NamedType ''String'') [],
        FieldDefinition (Some ''The name of the NFT found in the metadata.'')
          ''name'' []
          (NamedType ''String'') [],
        FieldDefinition (Some ''The owning wallet's public key.'')
          ''owner'' []
          (NonNullType (NamedType ''String'')) [],
        FieldDefinition (Some ''The associated token account address or contract token ID of the individual item.'')
          ''token'' []
          (NonNullType (NamedType ''String'')) []]"

definition NftAttribute :: type_system_definition where
  "NftAttribute =
     ObjectTypeDefinition (Some ''NFT `attributes` list sub-type definition.'')
       ''NftAttribute'' []
       [FieldDefinition (Some ''The trait name of the attribute.'')
          ''trait'' []
          (NonNullType (NamedType ''String'')) [],
        FieldDefinition (Some ''The item's value for the specified trait type.'')
          ''value'' []
          (NonNullType (NamedType ''String'')) []]"

definition NftConnection :: type_system_definition where
  "NftConnection =
     ObjectTypeDefinition (Some ''Relay connection specification for `Nft` edges.'')
       ''NftConnection'' []
       [FieldDefinition None
          ''edges'' []
          (NonNullType (ListType (NonNullType (NamedType ''NftEdge'')))) [],
        FieldDefinition None
          ''pageInfo'' []
          (NonNullType (NamedType ''PageInfo'')) []]"

definition NftEdge :: type_system_definition where
  "NftEdge =
     ObjectTypeDefinition (Some ''Relay edge specification for `Nft` nodes.'')
       ''NftEdge'' []
       [FieldDefinition None
          ''cursor'' []
          (NonNullType (NamedType ''String'')) [],
        FieldDefinition None
          ''node'' []
          (NonNullType (NamedType ''Nft'')) []]"

definition Notification :: type_system_definition where
  "Notification =
     ObjectTypeDefinition (Some ''Notification data type for user notification reads.'')
       ''Notification'' [''Node'']
       [FieldDefinition (Some ''Globally unique identifier for a specific notification.'')
          ''id'' []
          (NonNullType (NamedType ''ID'')) [],
        FieldDefinition (Some ''Application identity information if the notification was from an xNFT.'')
          ''app'' []
          (NamedType ''NotificationApplicationData'')
          [Directive ''cacheControl'' [(''maxAge'', IntValue 180)]],
        FieldDefinition (Some ''Arbitrary body data of the notification parsed as an object.'')
          ''body'' []
          (NonNullType (NamedType ''JSONObject'')) [],
        FieldDefinition (Some ''The emitting source of the notification.'')
          ''source'' []
          (NonNullType (NamedType ''String'')) [],
        FieldDefinition (Some ''The timestamp that the notification was created.'')
          ''timestamp'' []
          (NonNullType (NamedType ''String'')) [],
        FieldDefinition (Some ''The title of the notification.'')
          ''title'' []
          (NonNullType (NamedType ''String'')) [],
        FieldDefinition (Some ''Flag to indicate whether it has been viewed or not by the user.'')
          ''viewed'' []
          (NonNullType (NamedType ''Boolean'')) []]"

definition NotificationApplicationData :: type_system_definition where
  "NotificationApplicationData =
     ObjectTypeDefinition None
       ''NotificationApplicationData'' [''Node'']
       [FieldDefinition (Some ''Globally unique identifier for the node.'')
          ''id'' []
          (NonNullType (NamedType ''ID'')) [],
        FieldDefinition (Some ''The image link to the application's icon.'')
          ''image'' []
          (NonNullType (NamedType ''String'')) [],
        FieldDefinition (Some ''The name of the application.'')
          ''name'' []
          (NonNullType (NamedType ''String'')) []]"

definition NotificationConnection :: type_system_definition where
  "NotificationConnection =
     ObjectTypeDefinition (Some ''Relay connection specification for `Notification` edges.'')
       ''NotificationConnection'' []
       [FieldDefinition (Some ''The database integer ID of the last read notification of the user.'')
          ''lastReadId'' []
          (NamedType ''Int'') [],
        FieldDefinition None
          ''edges'' []
          (NonNullType (ListType (NonNullType (NamedType ''NotificationEdge'')))) [],
        FieldDefinition None
          ''pageInfo'' []
          (NonNullType (NamedType ''PageInfo'')) []]"

definition NotificationEdge :: type_system_definition where
  "NotificationEdge =
     ObjectTypeDefinition (Some ''Relay edge specification for `Notification` nodes.'')
       ''NotificationEdge'' []
       [FieldDefinition None
          ''cursor'' []
          (NonNullType (NamedType ''String'')) [],
        FieldDefinition None
          ''node'' []
          (NonNullType (NamedType ''Notification'')) []]"

definition TokenBalance :: type_system_definition where
  "TokenBalance =
     ObjectTypeDefinition (Some ''Generic native or non-native token data and balance for a `Wallet`.'')
       ''TokenBalance'' [''Node'']
       [FieldDefinition (Some ''Globally unqiue identifier for the token balance object in a wallet.'')
          ''id'' []
          (NonNullType (NamedType ''ID'')) [],
        FieldDefinition (Some ''The associated token account or wallet + contract address of the wallet.'')
          ''address'' []
          (NonNullType (NamedType ''String'')) [],
        FieldDefinition (Some ''The unformated amount of tokens held for the specific contract or mint.'')
          ''amount'' []
          (NonNullType (NamedType ''String'')) [],
        FieldDefinition (Some ''The number of decimals associated with the contract or mint.'')
          ''decimals'' []
          (NonNullType (NamedType ''Int'')) [],
        FieldDefinition (Some ''The formatted display amount for the wallet's holdings of the token.'')
          ''displayAmount'' []
          (NonNullType (NamedType ''String'')) [],
        FieldDefinition (Some ''Market price data for the token contract or mint.'')
          ''marketData'' []
          (NamedType ''MarketData'')
          [Directive ''cacheControl'' [(''maxAge'', IntValue 180)]],
        FieldDefinition (Some ''The address of the token mint or contract.'')
          ''token'' []
          (NonNullType (NamedType ''String'')) [],
        FieldDefinition (Some ''The possible entry in the token registry list for the mint or contract address.'')
          ''tokenListEntry'' []
          (NamedType ''TokenListEntry'') []]"

definition TokenBalanceConnection :: type_system_definition where
  "TokenBalanceConnection =
     ObjectTypeDefinition (Some ''Relay connection specification for `TokenBalance` edges.'')
       ''TokenBalanceConnection'' []
       [FieldDefinition None
          ''edges'' []
          (NonNullType (ListType (NonNullType (NamedType ''TokenBalanceEdge'')))) [],
        FieldDefinition None
          ''pageInfo'' []
          (NonNullType (NamedType ''PageInfo'')) []]"

definition TokenBalanceEdge :: type_system_definition where
  "TokenBalanceEdge =
     ObjectTypeDefinition (Some ''Relay edge specification for `TokenBalance` nodes.'')
       ''TokenBalanceEdge'' []
       [FieldDefinition None
          ''cursor'' []
          (NonNullType (NamedType ''String'')) [],
        FieldDefinition None
          ''node'' []
          (NonNullType (NamedType ''TokenBalance'')) []]"

definition TokenListEntry :: type_system_definition where
  "TokenListEntry =
     ObjectTypeDefinition None
       ''TokenListEntry'' [''Node'']
       [FieldDefinition (Some ''Globally unique identifier for the list entry.'')
          ''id'' []
          (NonNullType (NamedType ''ID'')) [],
        FieldDefinition (Some ''The mint or contract address of the token.'')
          ''address'' []
          (NonNullType (NamedType ''String'')) [],
        FieldDefinition (Some ''The Coingecko market listing ID.'')
          ''coingeckoId'' []
          (NamedType ''String'') [],
        FieldDefinition (Some ''The logo associated with the token.'')
          ''logo'' []
          (NamedType ''String'') [],
        FieldDefinition (Some ''The registered name of the token.'')
          ''name'' []
          (NonNullType (NamedType ''String'')) [],
        FieldDefinition (Some ''The registered symbol of the token.'')
          ''symbol'' []
          (NonNullType (NamedType ''String'')) []]"

definition Transaction :: type_system_definition where
  "Transaction =
     ObjectTypeDefinition (Some ''Generic on-chain transaction details structure.'')
       ''Transaction'' [''Node'']
       [FieldDefinition (Some ''Globally unique identifier for a single transaction.'')
          ''id'' []
          (NonNullType (NamedType ''ID'')) [],
        FieldDefinition (Some ''The semantic description of the transaction effects.'')
          ''description'' []
          (NamedType ''String'') [],
        FieldDefinition (Some ''The block number or slot that the transaction was committed to.'')
          ''block'' []
          (NonNullType (NamedType ''Float'')) [],
        FieldDefinition (Some ''The error message for the transaction if it failed.'')
          ''error'' []
          (NamedType ''String'') [],
        FieldDefinition (Some ''The amount in fees that were paid for processing the transaction.'')
          ''fee'' []
          (NamedType ''String'') [],
        FieldDefinition (Some ''The address of the wallet that paid the processing fees.'')
          ''feePayer'' []
          (NamedType ''String'') [],
        FieldDefinition (Some ''The transaction hash or signature.'')
          ''hash'' []
          (NonNullType (NamedType ''String'')) [],
        FieldDefinition (Some ''A list of NFT mints or contract + token IDs associated with the transaction.'')
          ''nfts'' []
          (ListType (NamedType ''String'')) [],
        FieldDefinition (Some ''The raw JSON data received from the index API response for the item.'')
          ''raw'' []
          (NonNullType (NamedType ''JSONObject'')) [],
        FieldDefinition (Some ''The source or program that is associated with the transaction.'')
          ''source'' []
          (NamedType ''String'') [],
        FieldDefinition (Some ''The timestamp of the execution or commitment of the transaction.'')
          ''timestamp'' []
          (NonNullType (NamedType ''String'')) [],
        FieldDefinition (Some ''The category or type of transaction.'')
          ''type'' []
          (NonNullType (NamedType ''String'')) []]"

definition TransactionConnection :: type_system_definition where
  "TransactionConnection =
     ObjectTypeDefinition (Some ''Relay connection specification for `Transaction` edges.'')
       ''TransactionConnection'' []
       [FieldDefinition None
          ''edges'' []
          (NonNullType (ListType (NonNullType (NamedType ''TransactionEdge'')))) [],
        FieldDefinition None
          ''pageInfo'' []
          (NonNullType (NamedType ''PageInfo'')) []]"

definition TransactionEdge :: type_system_definition where
  "TransactionEdge =
     ObjectTypeDefinition (Some ''Relay edge specification for `Transaction` nodes.'')
       ''TransactionEdge'' []
       [FieldDefinition None
          ''cursor'' []
          (NonNullType (NamedType ''String'')) [],
        FieldDefinition None
          ''node'' []
          (NonNullType (NamedType ''Transaction'')) []]"

definition User :: type_system_definition where
  "User =
     ObjectTypeDefinition (Some ''Backpack user type definition so provide data about all of the user's\<newline>assets, peripheral information, and social data.'')
       ''User'' [''Node'']
       [FieldDefinition (Some ''Globally unique identifier for a Backpack user.'')
          ''id'' []
          (NonNullType (NamedType ''ID'')) [],
        FieldDefinition (Some ''The image link for the avatar of the user.'')
          ''avatar'' []
          (NonNullType (NamedType ''String'')) [],
        FieldDefinition (Some ''The timestamp of the creation of the user.'')
          ''createdAt'' []
          (NonNullType (NamedType ''String'')) [],
        FieldDefinition (Some ''A grouping object of the friends and friend request data for the user.'')
          ''friendship'' []
          (NamedType ''Friendship'')
          [Directive ''cacheControl'' [(''inheritMaxAge'', BooleanValue True)]],
        FieldDefinition (Some ''The Relay connection for the notifications received by the user.'')
          ''notifications''
          [InputValueDefinition None ''filters'' (NamedType ''NotificationFiltersInput'')]
          (NamedType ''NotificationConnection'')
          [Directive ''cacheControl'' [(''maxAge'', IntValue 60), (''scope'', EnumValue ''PRIVATE'')]],
        FieldDefinition (Some ''The user's unique UUID from the database.'')
          ''userId'' []
          (NonNullType (NamedType ''String'')) [],
        FieldDefinition (Some ''The user's Backpack username.'')
          ''username'' []
          (NonNullType (NamedType ''String'')) [],
        FieldDefinition (Some ''Get a single wallet object for the argued public key address.'')
          ''wallet''
          [InputValueDefinition None ''address'' (NonNullType (NamedType ''String''))]
          (NamedType ''Wallet'') [],
        FieldDefinition (Some ''The Relay connection for the wallet's and their data that are registered to the user.'')
          ''wallets''
          [InputValueDefinition None ''filters'' (NamedType ''WalletFiltersInput'')]
          (NamedType ''WalletConnection'')
          [Directive ''cacheControl'' [(''maxAge'', IntValue 60)]]]"

definition Wallet :: type_system_definition where
  "Wallet =
     ObjectTypeDefinition (Some ''Wallet definition to provide data about all assets owned by an address.'')
       ''Wallet'' [''Node'']
       [FieldDefinition (Some ''Globally unique identifier for a specific wallet on a blockchain.'')
          ''id'' []
          (NonNullType (NamedType ''ID'')) [],
        FieldDefinition (Some ''The public key address of the wallet.'')
          ''address'' []
          (NonNullType (NamedType ''String'')) [],
        FieldDefinition (Some ''The blockchain enum variant that the wallet is associated with.'')
          ''chainId'' []
          (NonNullType (NamedType ''ChainID'')) [],
        FieldDefinition (Some ''The timestamp that the wallet was imported or registered to the Backpack user.'')
          ''createdAt'' []
          (NonNullType (NamedType ''String'')) [],
        FieldDefinition (Some ''The detailed and aggregate balance data for the wallet.'')
          ''balances''
          [InputValueDefinition None ''filters'' (NamedType ''BalanceFiltersInput'')]
          (NamedType ''Balances'')
          [Directive ''cacheControl'' [(''maxAge'', IntValue 60)]],
        FieldDefinition (Some ''Flag to indicate whether it is the user's primary wallet for the designated blockchain.'')
          ''isPrimary'' []
          (NonNullType (NamedType ''Boolean'')) [],
        FieldDefinition (Some ''The Relay connection for all of the NFTs owned by the wallet.'')
          ''nfts''
          [InputValueDefinition None ''filters'' (NamedType ''NftFiltersInput'')]
          (NamedType ''NftConnection'')
          [Directive ''cacheControl'' [(''maxAge'', IntValue 60)]],
        FieldDefinition (Some ''The Relay connection for all transactions initiated or associated with the wallet.'')
          ''transactions''
          [InputValueDefinition None ''filters'' (NamedType ''TransactionFiltersInput'')]
          (NamedType ''TransactionConnection'')
          [Directive ''cacheControl'' [(''maxAge'', IntValue 30)]]]"

definition WalletConnection :: type_system_definition where
  "WalletConnection =
     ObjectTypeDefinition (Some ''Relay connection specification for `Wallet` edges.'')
       ''WalletConnection'' []
       [FieldDefinition None
          ''edges'' []
          (NonNullType (ListType (NonNullType (NamedType ''WalletEdge'')))) [],
        FieldDefinition None
          ''pageInfo'' []
          (NonNullType (NamedType ''PageInfo'')) []]"

definition WalletEdge :: type_system_definition where
  "WalletEdge =
     ObjectTypeDefinition (Some ''Relay edge specification for `Wallet` nodes.'')
       ''WalletEdge'' []
       [FieldDefinition None
          ''cursor'' []
          (NonNullType (NamedType ''String'')) [],
        FieldDefinition None
          ''node'' []
          (NonNullType (NamedType ''Wallet'')) []]"

definition schema_document :: "type_system_definition list" where
  "schema_document =
     [schema_definition, JSONObject, cacheControl, Mutation, Query, CacheControlScope,
      ChainID, FriendRequestType, SortDirection, BalanceFiltersInput, NftFiltersInput,
      NotificationFiltersInput, TokenListEntryFiltersInput, TransactionFiltersInput,
      WalletFiltersInput, Node, PageInfo, Balances, BalanceAggregate, Collection, Friend,
      FriendRequest, Friendship, Listing, MarketData, Nft, NftAttribute, NftConnection,
      NftEdge, Notification, NotificationApplicationData, NotificationConnection,
      NotificationEdge, TokenBalance, TokenBalanceConnection, TokenBalanceEdge,
      TokenListEntry, Transaction, TransactionConnection, TransactionEdge, User, Wallet,
      WalletConnection, WalletEdge]"

subsection \<open>Reading the document\<close>

text \<open>The name of a type definition; the schema block and a directive define no type.\<close>

fun type_name :: "type_system_definition \<Rightarrow> string option" where
  "type_name (SchemaDefinition _) = None"
| "type_name (ScalarTypeDefinition _ n) = Some n"
| "type_name (DirectiveDefinition _ _ _ _) = None"
| "type_name (ObjectTypeDefinition _ n _ _) = Some n"
| "type_name (InterfaceTypeDefinition _ n _) = Some n"
| "type_name (EnumTypeDefinition _ n _) = Some n"
| "type_name (InputObjectTypeDefinition _ n _) = Some n"

definition types_named :: "type_system_definition list \<Rightarrow> string \<Rightarrow> type_system_definition list" where
  "types_named doc n = filter (\<lambda>d. type_name d = Some n) doc"

fun is_object_type :: "type_system_definition \<Rightarrow> bool" where
  "is_object_type (ObjectTypeDefinition _ _ _ _) = True"
| "is_object_type _ = False"

fun is_enum_type :: "type_system_definition \<Rightarrow> bool" where
  "is_enum_type (EnumTypeDefinition _ _ _) = True"
| "is_enum_type _ = False"

fun interfaces_of :: "type_system_definition \<Rightarrow> string list" where
  "interfaces_of (ObjectTypeDefinition _ _ is _) = is"
| "interfaces_of _ = []"

fun fields_of :: "type_system_definition \<Rightarrow> field_definition list" where
  "fields_of (ObjectTypeDefinition _ _ _ fs) = fs"
| "fields_of (InterfaceTypeDefinition _ _ fs) = fs"
| "fields_of _ = []"

fun enum_values :: "type_system_definition \<Rightarrow> string list" where
  "enum_values (EnumTypeDefinition _ _ vs) = vs"
| "enum_values _ = []"

text \<open>The root operation types that the \<^verbatim>\<open>schema\<close> block of a document names.\<close>

fun operation_types :: "type_system_definition \<Rightarrow> (string \<times> string) list" where
  "operation_types (SchemaDefinition ops) = ops"
| "operation_types _ = []"

definition root_operation_types :: "type_system_definition list \<Rightarrow> (string \<times> string) list" where
  "root_operation_types doc = concat (map operation_types doc)"

text \<open>The object types of a document declared with \<^verbatim>\<open>implements i\<close>.\<close>

definition implementers :: "type_system_definition list \<Rightarrow> string \<Rightarrow> type_system_definition list" where
  "implementers doc i = filter (\<lambda>d. is_object_type d \<and> i \<in> set (interfaces_of d)) doc"

text \<open>The fields of a type with a given name (a valid type has at most one).\<close>

definition fields_named :: "type_system_definition \<Rightarrow> string \<Rightarrow> field_definition list" where
  "fields_named d n = filter (\<lambda>f. fd_name f = n) (fields_of d)"

text \<open>
  \<open>exposes d n t\<close>: the type \<open>d\<close> declares exactly one field named \<open>n\<close>; the field takes no
  arguments and its type is \<open>t\<close>, written \<^verbatim>\<open>n: t\<close> in the document.
\<close>

definition exposes :: "type_system_definition \<Rightarrow> string \<Rightarrow> gql_type \<Rightarrow> bool" where
  "exposes d n t = (map (\<lambda>f. (fd_arguments f, fd_type f)) (fields_named d n) = [([], t)])"

text \<open>
  A connection type is an object type named \<^verbatim>\<open>TConnection\<close>; \<open>connection_of\<close> gives
  the name \<open>T\<close> of the domain type it pages over, and likewise \<open>edge_of\<close> for \<^verbatim>\<open>TEdge\<close>.
\<close>

definition strip_suffix :: "string \<Rightarrow> string \<Rightarrow> string option" where
  "strip_suffix sfx s =
     (let k = length s - length sfx
      in if length sfx \<le> length s \<and> drop k s = sfx then Some (take k s) else None)"

definition connection_of :: "type_system_definition \<Rightarrow> string option" where
  "connection_of d =
     (case type_name d of
        None \<Rightarrow> None
      | Some n \<Rightarrow> if is_object_type d then strip_suffix ''Connection'' n else None)"

definition connection_types :: "type_system_definition list \<Rightarrow> type_system_definition list" where
  "connection_types doc = filter (\<lambda>d. connection_of d \<noteq> None) doc"

text \<open>The directive definitions of a document: name, arguments with their types, locations.\<close>

fun directive_signature ::
  "type_system_definition \<Rightarrow> (string \<times> (string \<times> gql_type) list \<times> directive_location list) option" where
  "directive_signature (DirectiveDefinition _ n args locs) =
     Some (n, map (\<lambda>a. (iv_name a, iv_type a)) args, locs)"
| "directive_signature _ = None"

definition directive_definitions ::
  "type_system_definition list \<Rightarrow> (string \<times> (string \<times> gql_type) list \<times> directive_location list) list" where
  "directive_definitions doc = List.map_filter directive_signature doc"

text \<open>A field is deprecated when the directive \<^verbatim>\<open>@deprecated\<close> is applied to it.\<close>

definition deprecated :: "field_definition \<Rightarrow> bool" where
  "deprecated f = (''deprecated'' \<in> set (map directive_name (fd_directives f)))"

section \<open>Properties of the feature-gate evaluator\<close>

subsection \<open>Reading the flags\<close>

lemma flag_map_of: "flag obj = map_of obj"
  by (rule ext) (simp add: flag_def)

lemma keys_FEATURE_GATES:
  "map fst (FEATURE_GATES args) =
     [''STRIPE_ENABLED'', ''PRIMARY_PUBKEY_ENABLED'', ''SWAP_FEES_ENABLED'',
      ''DROPZONE_ENABLED'', ''STICKER_ENABLED'', ''BARTER_ENABLED'']"
  by (simp add: FEATURE_GATES_def)

text \<open>
  The gate in closed form: the \<open>&&\<close> yields its left operand when \<open>userId\<close> is
  \<open>undefined\<close> or the empty string, and the result of \<open>includes\<close> otherwise.
\<close>

lemma DROPZONE_ENABLED_value:
  "flag (FEATURE_GATES args) ''DROPZONE_ENABLED'' =
     Some (case userId args of None \<Rightarrow> False
           | Some s \<Rightarrow> s \<noteq> [] \<and> s \<in> set (dropzoneUsers args))"
  by (cases "userId args") (simp_all add: FEATURE_GATES_def flag_def js_and_def)

subsection \<open>The dropzone gate\<close>

text \<open>
  Claim C1 says that \<open>DROPZONE_ENABLED\<close> is true if and only if \<open>userId\<close> is defined and is
  a member of the cohort list. The code tests the truthiness of \<open>userId\<close>, so the claim
  fails for the empty string: with \<open>userId = ""\<close> and the cohort \<open>[""]\<close> the user id is
  defined and a member of the cohort, and the flag is false.
\<close>

theorem C1_defined_member_counterexample:
  "spec_defined_member
     (userId \<lparr>dropzoneUsers = [''''], userId = Some ''''\<rparr>)
     (dropzoneUsers \<lparr>dropzoneUsers = [''''], userId = Some ''''\<rparr>) \<and>
   flag (FEATURE_GATES \<lparr>dropzoneUsers = [''''], userId = Some ''''\<rparr>) ''DROPZONE_ENABLED''
     = Some False"
  by (simp add: spec_defined_member_def DROPZONE_ENABLED_value)

text \<open>
  Claim C1, amended: for every cohort list and every \<open>userId\<close>, \<open>DROPZONE_ENABLED\<close> is
  true if and only if \<open>userId\<close> is defined, is not the empty string and is a member of the
  cohort list. The three examples of the claim hold: \<open>u1\<close> in the cohort \<open>u1, u2\<close> gives
  true, \<open>u3\<close> gives false, and an undefined \<open>userId\<close> gives false for every cohort.
\<close>

theorem C1_DROPZONE_ENABLED_nonempty_member:
  "flag (FEATURE_GATES args) ''DROPZONE_ENABLED'' =
     Some (case userId args of None \<Rightarrow> False
           | Some s \<Rightarrow> s \<noteq> [] \<and> s \<in> set (dropzoneUsers args)) \<and>
   flag (FEATURE_GATES \<lparr>dropzoneUsers = [''u1'', ''u2''], userId = Some ''u1''\<rparr>)
      ''DROPZONE_ENABLED'' = Some True \<and>
   flag (FEATURE_GATES \<lparr>dropzoneUsers = [''u1'', ''u2''], userId = Some ''u3''\<rparr>)
      ''DROPZONE_ENABLED'' = Some False \<and>
   flag (FEATURE_GATES \<lparr>dropzoneUsers = cohort, userId = None\<rparr>)
      ''DROPZONE_ENABLED'' = Some False"
proof -
  have "flag (FEATURE_GATES \<lparr>dropzoneUsers = [''u1'', ''u2''], userId = Some ''u1''\<rparr>)
      ''DROPZONE_ENABLED'' = Some True"
    by (simp add: DROPZONE_ENABLED_value)
  moreover have "flag (FEATURE_GATES \<lparr>dropzoneUsers = [''u1'', ''u2''], userId = Some ''u3''\<rparr>)
      ''DROPZONE_ENABLED'' = Some False"
    by (simp add: DROPZONE_ENABLED_value)
  moreover have "flag (FEATURE_GATES \<lparr>dropzoneUsers = cohort, userId = None\<rparr>)
      ''DROPZONE_ENABLED'' = Some False"
    by (simp add: DROPZONE_ENABLED_value)
  ultimately show ?thesis
    using DROPZONE_ENABLED_value [of args] by blast
qed

text \<open>
  Claim C9: when \<open>userId\<close> is the empty string, \<open>DROPZONE_ENABLED\<close> is false for every
  cohort list, whatever else the argument object carries, also when the empty string is
  a member of the cohort: \<open>includes\<close> would find it, but the gate tests the truthiness of
  the string first.
\<close>

theorem C9_empty_userId_never_enabled:
  "flag (FEATURE_GATES \<lparr>dropzoneUsers = cohort, userId = Some ''''\<rparr>)
      ''DROPZONE_ENABLED'' = Some False \<and>
   flag (FEATURE_GATES (args\<lparr>userId := Some ''''\<rparr>)) ''DROPZONE_ENABLED'' = Some False \<and>
   flag (FEATURE_GATES \<lparr>dropzoneUsers = xs @ [''''] @ ys, userId = Some ''''\<rparr>)
      ''DROPZONE_ENABLED'' = Some False \<and>
   array_includes (xs @ [''''] @ ys) (Some '''') \<and>
   \<not> ToBoolean (js_of_optional (Some ''''))"
proof (intro conjI)
  show "flag (FEATURE_GATES \<lparr>dropzoneUsers = cohort, userId = Some ''''\<rparr>)
      ''DROPZONE_ENABLED'' = Some False"
    by (simp add: DROPZONE_ENABLED_value)
  show "flag (FEATURE_GATES (args\<lparr>userId := Some ''''\<rparr>)) ''DROPZONE_ENABLED'' = Some False"
    by (simp add: DROPZONE_ENABLED_value)
  show "flag (FEATURE_GATES \<lparr>dropzoneUsers = xs @ [''''] @ ys, userId = Some ''''\<rparr>)
      ''DROPZONE_ENABLED'' = Some False"
    by (simp add: DROPZONE_ENABLED_value)
  show "array_includes (xs @ [''''] @ ys) (Some '''')"
    by simp
  show "\<not> ToBoolean (js_of_optional (Some ''''))"
    by simp
qed

subsection \<open>The shape of the result and the constant flags\<close>

text \<open>
  Claim C2: for every input, the result has exactly one entry for each feature of the
  universe \<open>STRIPE_ENABLED\<close>, \<open>PRIMARY_PUBKEY_ENABLED\<close>, \<open>SWAP_FEES_ENABLED\<close>,
  \<open>DROPZONE_ENABLED\<close>, \<open>STICKER_ENABLED\<close>, \<open>BARTER_ENABLED\<close>: the keys of the object
  literal are distinct, they are the six features, and reading any of the six yields a
  boolean.
\<close>

theorem C2_flags_total_over_universe:
  "distinct (map fst (FEATURE_GATES args)) \<and>
   set (map fst (FEATURE_GATES args)) = set FEATURE_GATES_MAP_keys \<and>
   dom (flag (FEATURE_GATES args)) = set FEATURE_GATES_MAP_keys \<and>
   set FEATURE_GATES_MAP_keys =
     {''STRIPE_ENABLED'', ''PRIMARY_PUBKEY_ENABLED'', ''SWAP_FEES_ENABLED'',
      ''DROPZONE_ENABLED'', ''STICKER_ENABLED'', ''BARTER_ENABLED''} \<and>
   length (FEATURE_GATES args) = 6"
proof -
  have keys: "map fst (FEATURE_GATES args) = FEATURE_GATES_MAP_keys"
    by (simp add: keys_FEATURE_GATES FEATURE_GATES_MAP_keys_def)
  have "distinct FEATURE_GATES_MAP_keys"
    by (simp add: FEATURE_GATES_MAP_keys_def)
  moreover have "dom (flag (FEATURE_GATES args)) = set (map fst (FEATURE_GATES args))"
    by (simp add: flag_map_of dom_map_of_conv_image_fst)
  moreover have "set FEATURE_GATES_MAP_keys =
     {''STRIPE_ENABLED'', ''PRIMARY_PUBKEY_ENABLED'', ''SWAP_FEES_ENABLED'',
      ''DROPZONE_ENABLED'', ''STICKER_ENABLED'', ''BARTER_ENABLED''}"
    by (simp add: FEATURE_GATES_MAP_keys_def)
  moreover have "length (FEATURE_GATES args) = 6"
    by (simp add: FEATURE_GATES_def)
  ultimately show ?thesis
    by (simp only: keys simp_thms)
qed

text \<open>
  Claim C3: for every \<open>userId\<close> and every cohort list, \<open>STRIPE_ENABLED\<close>,
  \<open>PRIMARY_PUBKEY_ENABLED\<close> and \<open>STICKER_ENABLED\<close> are true and \<open>SWAP_FEES_ENABLED\<close> and
  \<open>BARTER_ENABLED\<close> are false.
\<close>

theorem C3_static_flags:
  "flag (FEATURE_GATES args) ''STRIPE_ENABLED'' = Some True \<and>
   flag (FEATURE_GATES args) ''PRIMARY_PUBKEY_ENABLED'' = Some True \<and>
   flag (FEATURE_GATES args) ''SWAP_FEES_ENABLED'' = Some False \<and>
   flag (FEATURE_GATES args) ''STICKER_ENABLED'' = Some True \<and>
   flag (FEATURE_GATES args) ''BARTER_ENABLED'' = Some False"
  by (simp add: FEATURE_GATES_def flag_def)

section \<open>Properties of the schema document\<close>

subsection \<open>The Node interface\<close>

lemma Node_interface:
  "types_named schema_document ''Node'' = [Node] \<and>
   exposes Node ''id'' (NonNullType (NamedType ''ID''))"
  by code_simp

lemma implementers_Node:
  "map type_name (implementers schema_document ''Node'') =
     [Some ''Balances'', Some ''BalanceAggregate'', Some ''Collection'', Some ''Friend'',
      Some ''FriendRequest'', Some ''Listing'', Some ''MarketData'', Some ''Nft'',
      Some ''Notification'', Some ''NotificationApplicationData'', Some ''TokenBalance'',
      Some ''TokenListEntry'', Some ''Transaction'', Some ''User'', Some ''Wallet'']"
  by code_simp

lemma implementers_Node_id:
  "\<forall>d \<in> set schema_document.
     is_object_type d \<and> ''Node'' \<in> set (interfaces_of d) \<longrightarrow>
     exposes d ''id'' (NonNullType (NamedType ''ID''))"
  by code_simp

text \<open>
  Claim C5: the interface \<open>Node\<close> declares \<^verbatim>\<open>id: ID!\<close>, and every object type of the
  document declared with \<^verbatim>\<open>implements Node\<close> (there are fifteen) declares exactly one
  field \<open>id\<close>, without arguments and of the non-null type \<^verbatim>\<open>ID!\<close>.
\<close>

theorem C5_Node_implementers_expose_id:
  "exposes Node ''id'' (NonNullType (NamedType ''ID'')) \<and>
   map type_name (implementers schema_document ''Node'') =
     [Some ''Balances'', Some ''BalanceAggregate'', Some ''Collection'', Some ''Friend'',
      Some ''FriendRequest'', Some ''Listing'', Some ''MarketData'', Some ''Nft'',
      Some ''Notification'', Some ''NotificationApplicationData'', Some ''TokenBalance'',
      Some ''TokenListEntry'', Some ''Transaction'', Some ''User'', Some ''Wallet''] \<and>
   (\<forall>d \<in> set schema_document.
      is_object_type d \<and> ''Node'' \<in> set (interfaces_of d) \<longrightarrow>
      exposes d ''id'' (NonNullType (NamedType ''ID'')))"
  using Node_interface implementers_Node implementers_Node_id
  by (intro conjI) (simp_all only:)

theorem C5_Node_implementers_expose_id_witness:
  "User \<in> set schema_document \<and> is_object_type User \<and> ''Node'' \<in> set (interfaces_of User) \<and>
   exposes User ''id'' (NonNullType (NamedType ''ID''))"
proof -
  have member: "User \<in> set schema_document"
    by (simp add: schema_document_def)
  have node: "is_object_type User \<and> ''Node'' \<in> set (interfaces_of User)"
    by (simp add: User_def)
  from C5_Node_implementers_expose_id
  have "\<forall>d \<in> set schema_document.
      is_object_type d \<and> ''Node'' \<in> set (interfaces_of d) \<longrightarrow>
      exposes d ''id'' (NonNullType (NamedType ''ID''))"
    by (elim conjE)
  with member node show ?thesis
    by blast
qed

subsection \<open>Connections and edges\<close>

lemma connection_types_names:
  "map type_name (connection_types schema_document) =
     [Some ''NftConnection'', Some ''NotificationConnection'', Some ''TokenBalanceConnection'',
      Some ''TransactionConnection'', Some ''WalletConnection'']"
  by code_simp

text \<open>
  The check of one connection type, in the form that evaluates: the edge type and the
  domain type are looked up by name in the document.
\<close>

lemma connections_checked:
  "\<forall>c \<in> set schema_document.
     case connection_of c of
       None \<Rightarrow> True
     | Some T \<Rightarrow>
         exposes c ''edges'' (NonNullType (ListType (NonNullType (NamedType (T @ ''Edge''))))) \<and>
         exposes c ''pageInfo'' (NonNullType (NamedType ''PageInfo'')) \<and>
         (case types_named schema_document (T @ ''Edge'') of
            [e] \<Rightarrow> is_object_type e \<and>
                   exposes e ''cursor'' (NonNullType (NamedType ''String'')) \<and>
                   exposes e ''node'' (NonNullType (NamedType T))
          | _ \<Rightarrow> False) \<and>
         (case types_named schema_document T of [n] \<Rightarrow> is_object_type n | _ \<Rightarrow> False)"
  by code_simp

lemma connection_and_edge:
  assumes c: "c \<in> set schema_document" and T: "connection_of c = Some T"
  shows "exposes c ''edges'' (NonNullType (ListType (NonNullType (NamedType (T @ ''Edge''))))) \<and>
      exposes c ''pageInfo'' (NonNullType (NamedType ''PageInfo'')) \<and>
      (\<exists>e. types_named schema_document (T @ ''Edge'') = [e] \<and> is_object_type e \<and>
           exposes e ''cursor'' (NonNullType (NamedType ''String'')) \<and>
           exposes e ''node'' (NonNullType (NamedType T))) \<and>
      (\<exists>n. types_named schema_document T = [n] \<and> is_object_type n)"
proof -
  from connections_checked c T
  have "exposes c ''edges'' (NonNullType (ListType (NonNullType (NamedType (T @ ''Edge''))))) \<and>
         exposes c ''pageInfo'' (NonNullType (NamedType ''PageInfo'')) \<and>
         (case types_named schema_document (T @ ''Edge'') of
            [e] \<Rightarrow> is_object_type e \<and>
                   exposes e ''cursor'' (NonNullType (NamedType ''String'')) \<and>
                   exposes e ''node'' (NonNullType (NamedType T))
          | _ \<Rightarrow> False) \<and>
         (case types_named schema_document T of [n] \<Rightarrow> is_object_type n | _ \<Rightarrow> False)"
    by fastforce
  then show ?thesis
    by (auto split: list.splits)
qed

text \<open>
  Claim C6: the connection types of the document are \<open>NftConnection\<close>,
  \<open>NotificationConnection\<close>, \<open>TokenBalanceConnection\<close>, \<open>TransactionConnection\<close> and
  \<open>WalletConnection\<close>. Each connection type \<^verbatim>\<open>TConnection\<close> declares
  \<^verbatim>\<open>edges: [TEdge!]!\<close> and \<^verbatim>\<open>pageInfo: PageInfo!\<close>; the document defines exactly one type
  \<^verbatim>\<open>TEdge\<close>, an object type that declares \<^verbatim>\<open>cursor: String!\<close> and \<^verbatim>\<open>node: T!\<close>, and
  exactly one type \<open>T\<close>, an object type.
\<close>

theorem C6_connections_and_edges:
  "map type_name (connection_types schema_document) =
     [Some ''NftConnection'', Some ''NotificationConnection'', Some ''TokenBalanceConnection'',
      Some ''TransactionConnection'', Some ''WalletConnection''] \<and>
   (\<forall>c \<in> set schema_document. \<forall>T. connection_of c = Some T \<longrightarrow>
      exposes c ''edges'' (NonNullType (ListType (NonNullType (NamedType (T @ ''Edge''))))) \<and>
      exposes c ''pageInfo'' (NonNullType (NamedType ''PageInfo'')) \<and>
      (\<exists>e. types_named schema_document (T @ ''Edge'') = [e] \<and> is_object_type e \<and>
           exposes e ''cursor'' (NonNullType (NamedType ''String'')) \<and>
           exposes e ''node'' (NonNullType (NamedType T))) \<and>
      (\<exists>n. types_named schema_document T = [n] \<and> is_object_type n))"
proof (intro conjI ballI allI impI)
  show "map type_name (connection_types schema_document) =
     [Some ''NftConnection'', Some ''NotificationConnection'', Some ''TokenBalanceConnection'',
      Some ''TransactionConnection'', Some ''WalletConnection'']"
    by (rule connection_types_names)
next
  fix c T
  assume "c \<in> set schema_document" and "connection_of c = Some T"
  then have all: "exposes c ''edges'' (NonNullType (ListType (NonNullType (NamedType (T @ ''Edge''))))) \<and>
      exposes c ''pageInfo'' (NonNullType (NamedType ''PageInfo'')) \<and>
      (\<exists>e. types_named schema_document (T @ ''Edge'') = [e] \<and> is_object_type e \<and>
           exposes e ''cursor'' (NonNullType (NamedType ''String'')) \<and>
           exposes e ''node'' (NonNullType (NamedType T))) \<and>
      (\<exists>n. types_named schema_document T = [n] \<and> is_object_type n)"
    by (rule connection_and_edge)
  from all show "exposes c ''edges''
      (NonNullType (ListType (NonNullType (NamedType (T @ ''Edge'')))))"
    by (elim conjE)
  from all show "exposes c ''pageInfo'' (NonNullType (NamedType ''PageInfo''))"
    by (elim conjE)
  from all show "\<exists>e. types_named schema_document (T @ ''Edge'') = [e] \<and> is_object_type e \<and>
           exposes e ''cursor'' (NonNullType (NamedType ''String'')) \<and>
           exposes e ''node'' (NonNullType (NamedType T))"
    by (elim conjE)
  from all show "\<exists>n. types_named schema_document T = [n] \<and> is_object_type n"
    by (elim conjE)
qed

theorem C6_connections_and_edges_witness:
  "WalletConnection \<in> set schema_document \<and>
   connection_of WalletConnection = Some ''Wallet'' \<and>
   exposes WalletConnection ''edges''
     (NonNullType (ListType (NonNullType (NamedType ''WalletEdge'')))) \<and>
   exposes WalletConnection ''pageInfo'' (NonNullType (NamedType ''PageInfo'')) \<and>
   types_named schema_document ''WalletEdge'' = [WalletEdge] \<and>
   exposes WalletEdge ''cursor'' (NonNullType (NamedType ''String'')) \<and>
   exposes WalletEdge ''node'' (NonNullType (NamedType ''Wallet''))"
proof -
  have member: "WalletConnection \<in> set schema_document"
    by (simp add: schema_document_def)
  have conn: "connection_of WalletConnection = Some ''Wallet''"
    by (simp add: WalletConnection_def connection_of_def strip_suffix_def)
  have edge: "types_named schema_document ''WalletEdge'' = [WalletEdge]"
    by code_simp
  from C6_connections_and_edges member conn
  have "exposes WalletConnection ''edges''
          (NonNullType (ListType (NonNullType (NamedType (''Wallet'' @ ''Edge''))))) \<and>
      exposes WalletConnection ''pageInfo'' (NonNullType (NamedType ''PageInfo'')) \<and>
      (\<exists>e. types_named schema_document (''Wallet'' @ ''Edge'') = [e] \<and> is_object_type e \<and>
           exposes e ''cursor'' (NonNullType (NamedType ''String'')) \<and>
           exposes e ''node'' (NonNullType (NamedType ''Wallet'')))"
    by blast
  with member conn edge show ?thesis
    by auto
qed

text \<open>
  Claim C10: \<open>NotificationConnection\<close> declares, besides \<open>edges\<close> and \<open>pageInfo\<close>, the
  nullable field \<^verbatim>\<open>lastReadId: Int\<close>, described as the database integer ID of the last
  read notification of the user; every other connection type of the document
  (\<open>NftConnection\<close>, \<open>TokenBalanceConnection\<close>, \<open>TransactionConnection\<close>,
  \<open>WalletConnection\<close>) declares exactly \<open>edges\<close> and \<open>pageInfo\<close>.
\<close>

theorem C10_lastReadId_only_in_NotificationConnection:
  "connection_of NotificationConnection = Some ''Notification'' \<and>
   map fd_name (fields_of NotificationConnection) = [''lastReadId'', ''edges'', ''pageInfo''] \<and>
   fields_named NotificationConnection ''lastReadId'' =
     [FieldDefinition
        (Some ''The database integer ID of the last read notification of the user.'')
        ''lastReadId'' [] (NamedType ''Int'') []] \<and>
   map type_name
     (filter (\<lambda>c. map fd_name (fields_of c) = [''edges'', ''pageInfo''])
        (connection_types schema_document)) =
     [Some ''NftConnection'', Some ''TokenBalanceConnection'', Some ''TransactionConnection'',
      Some ''WalletConnection''] \<and>
   (\<forall>c \<in> set schema_document.
      connection_of c \<noteq> None \<longrightarrow> type_name c \<noteq> Some ''NotificationConnection'' \<longrightarrow>
      map fd_name (fields_of c) = [''edges'', ''pageInfo''])"
proof (intro conjI)
  show "connection_of NotificationConnection = Some ''Notification''"
    by (simp add: NotificationConnection_def connection_of_def strip_suffix_def)
  show "map fd_name (fields_of NotificationConnection) = [''lastReadId'', ''edges'', ''pageInfo'']"
    by (simp add: NotificationConnection_def)
  show "fields_named NotificationConnection ''lastReadId'' =
     [FieldDefinition
        (Some ''The database integer ID of the last read notification of the user.'')
        ''lastReadId'' [] (NamedType ''Int'') []]"
    by (simp add: NotificationConnection_def fields_named_def)
  show "map type_name
     (filter (\<lambda>c. map fd_name (fields_of c) = [''edges'', ''pageInfo''])
        (connection_types schema_document)) =
     [Some ''NftConnection'', Some ''TokenBalanceConnection'', Some ''TransactionConnection'',
      Some ''WalletConnection'']"
    by code_simp
  show "\<forall>c \<in> set schema_document.
      connection_of c \<noteq> None \<longrightarrow> type_name c \<noteq> Some ''NotificationConnection'' \<longrightarrow>
      map fd_name (fields_of c) = [''edges'', ''pageInfo'']"
    by code_simp
qed

theorem C10_lastReadId_only_in_NotificationConnection_witness:
  "TransactionConnection \<in> set schema_document \<and>
   connection_of TransactionConnection = Some ''Transaction'' \<and>
   type_name TransactionConnection = Some ''TransactionConnection'' \<and>
   map fd_name (fields_of TransactionConnection) = [''edges'', ''pageInfo'']"
proof -
  have member: "TransactionConnection \<in> set schema_document"
    by (simp add: schema_document_def)
  have conn: "connection_of TransactionConnection = Some ''Transaction''"
    by (simp add: TransactionConnection_def connection_of_def strip_suffix_def)
  have name: "type_name TransactionConnection = Some ''TransactionConnection''"
    by (simp add: TransactionConnection_def)
  from C10_lastReadId_only_in_NotificationConnection
  have "\<forall>c \<in> set schema_document.
      connection_of c \<noteq> None \<longrightarrow> type_name c \<noteq> Some ''NotificationConnection'' \<longrightarrow>
      map fd_name (fields_of c) = [''edges'', ''pageInfo'']"
    by (elim conjE)
  with member conn name show ?thesis
    by auto
qed

subsection \<open>Entry points, the cache-control directive and the chain enumeration\<close>

text \<open>
  Claim C7: the \<^verbatim>\<open>schema\<close> block names \<open>Query\<close> and \<open>Mutation\<close> as root types. The document
  defines one type \<open>Query\<close>, an object type with exactly the fields \<open>tokenList\<close>, \<open>user\<close>
  and \<open>wallet\<close>; \<open>wallet\<close>, which takes \<open>chainId\<close> and \<open>address\<close> and returns a \<open>Wallet\<close>,
  is its one deprecated field. It defines one type \<open>Mutation\<close>, an object type with exactly
  the fields \<open>authenticate\<close>, \<open>deauthenticate\<close>, \<open>importPublicKey\<close> and
  \<open>sendFriendRequest\<close>. Its one directive definition is \<open>cacheControl\<close>, with the arguments
  \<open>maxAge\<close>, \<open>scope\<close> and \<open>inheritMaxAge\<close>, applicable to field definitions, objects,
  interfaces and unions.
\<close>

theorem C7_schema_surface:
  "root_operation_types schema_document = [(''mutation'', ''Mutation''), (''query'', ''Query'')] \<and>
   types_named schema_document ''Query'' = [Query] \<and> is_object_type Query \<and>
   map fd_name (fields_of Query) = [''tokenList'', ''user'', ''wallet''] \<and>
   map (\<lambda>f. (fd_name f, map iv_name (fd_arguments f), fd_type f))
       (filter deprecated (fields_of Query)) =
     [(''wallet'', [''chainId'', ''address''], NamedType ''Wallet'')] \<and>
   types_named schema_document ''Mutation'' = [Mutation] \<and> is_object_type Mutation \<and>
   map fd_name (fields_of Mutation) =
     [''authenticate'', ''deauthenticate'', ''importPublicKey'', ''sendFriendRequest''] \<and>
   directive_definitions schema_document =
     [(''cacheControl'',
       [(''maxAge'', NamedType ''Int''), (''scope'', NamedType ''CacheControlScope''),
        (''inheritMaxAge'', NamedType ''Boolean'')],
       [FIELD_DEFINITION, OBJECT, INTERFACE, UNION])]"
proof (intro conjI)
  show "root_operation_types schema_document =
      [(''mutation'', ''Mutation''), (''query'', ''Query'')]"
    by code_simp
  show "types_named schema_document ''Query'' = [Query]"
    by code_simp
  show "is_object_type Query"
    by (simp add: Query_def)
  show "map fd_name (fields_of Query) = [''tokenList'', ''user'', ''wallet'']"
    by (simp add: Query_def)
  show "map (\<lambda>f. (fd_name f, map iv_name (fd_arguments f), fd_type f))
       (filter deprecated (fields_of Query)) =
     [(''wallet'', [''chainId'', ''address''], NamedType ''Wallet'')]"
    by (simp add: Query_def deprecated_def)
  show "types_named schema_document ''Mutation'' = [Mutation]"
    by code_simp
  show "is_object_type Mutation"
    by (simp add: Mutation_def)
  show "map fd_name (fields_of Mutation) =
     [''authenticate'', ''deauthenticate'', ''importPublicKey'', ''sendFriendRequest'']"
    by (simp add: Mutation_def)
  show "directive_definitions schema_document =
     [(''cacheControl'',
       [(''maxAge'', NamedType ''Int''), (''scope'', NamedType ''CacheControlScope''),
        (''inheritMaxAge'', NamedType ''Boolean'')],
       [FIELD_DEFINITION, OBJECT, INTERFACE, UNION])]"
    by code_simp
qed

text \<open>
  Claim C8: the document defines one type \<open>ChainID\<close>, an enumeration with exactly the two
  values \<open>ETHEREUM\<close> and \<open>SOLANA\<close>, and one type \<open>Wallet\<close>, an object type with exactly one
  field \<open>chainId\<close>, of the non-null (and not list) type \<^verbatim>\<open>ChainID!\<close>.
\<close>

theorem C8_ChainID_closed_and_carried_by_Wallet:
  "types_named schema_document ''ChainID'' = [ChainID] \<and> is_enum_type ChainID \<and>
   enum_values ChainID = [''ETHEREUM'', ''SOLANA''] \<and>
   types_named schema_document ''Wallet'' = [Wallet] \<and> is_object_type Wallet \<and>
   exposes Wallet ''chainId'' (NonNullType (NamedType ''ChainID''))"
proof (intro conjI)
  show "types_named schema_document ''ChainID'' = [ChainID]"
    by code_simp
  show "is_enum_type ChainID" and "enum_values ChainID = [''ETHEREUM'', ''SOLANA'']"
    by (simp_all add: ChainID_def)
  show "types_named schema_document ''Wallet'' = [Wallet]"
    by code_simp
  show "is_object_type Wallet"
    by (simp add: Wallet_def)
  show "exposes Wallet ''chainId'' (NonNullType (NamedType ''ChainID''))"
    by (simp add: Wallet_def exposes_def fields_named_def)
qed

end
